theory Spec2Isabelle
  imports Complex_Main "HOL-Library.AList"
begin

section \<open>JavaScript values\<close>

text \<open>
  The value that \<^verbatim>\<open>request.json()\<close> yields, and the values the upload handler
  computes from it. The TypeScript cast \<^verbatim>\<open>as { script: string; ... }\<close> checks nothing
  at run time, so the handler works on whatever JSON the caller sent. \<open>JUndefined\<close> is not
  a JSON value: it is what reading an absent property gives. A number is the finite value
  the JSON text denotes. An object is its property list; a property is read at its first
  occurrence (parsed JSON has no repeated key).
\<close>

datatype jsval =
    JUndefined
  | JNull
  | JBool bool
  | JNum rat
  | JStr string
  | JArr "jsval list"
  | JObj "(string \<times> jsval) list"

datatype exn =
    SyntaxError
  | TypeError
  | WorkerNotFound
  | Fault string

text \<open>Decimal rendering of an array index, the property name of an array element.\<close>

definition digit :: "nat \<Rightarrow> char" where
  "digit d = ''0123456789'' ! d"

fun string_of_nat :: "nat \<Rightarrow> string" where
  "string_of_nat n =
     (if n < 10 then [digit n] else string_of_nat (n div 10) @ [digit (n mod 10)])"

text \<open>
  The own enumerable properties of a value, which are what an object spread
  \<^verbatim>\<open>{...v}\<close> copies: the properties of an object, the elements of an array and the
  characters of a string under their indices, nothing for \<^verbatim>\<open>undefined\<close>,
  \<^verbatim>\<open>null\<close>, a boolean or a number.
\<close>

fun own_props :: "jsval \<Rightarrow> (string \<times> jsval) list" where
  "own_props (JObj ps) = ps"
| "own_props (JArr xs) = zip (map string_of_nat [0..<length xs]) xs"
| "own_props (JStr s) = zip (map string_of_nat [0..<length s]) (map (\<lambda>c. JStr [c]) s)"
| "own_props _ = []"

definition lookup :: "(string \<times> jsval) list \<Rightarrow> string \<Rightarrow> jsval" where
  "lookup ps k = (case map_of ps k of None \<Rightarrow> JUndefined | Some v \<Rightarrow> v)"

text \<open>
  The property read \<^verbatim>\<open>v.k\<close>: a TypeError on \<^verbatim>\<open>undefined\<close> and
  \<^verbatim>\<open>null\<close>, the own property otherwise and \<^verbatim>\<open>undefined\<close> when there is none.
  The handlers read the names script, dispatch_config, limits, cpuMs and memory only, none
  of which a built-in prototype defines, so inherited properties are left out.
\<close>

fun get_prop :: "jsval \<Rightarrow> string \<Rightarrow> exn + jsval" where
  "get_prop JUndefined k = Inl TypeError"
| "get_prop JNull k = Inl TypeError"
| "get_prop v k = Inr (lookup (own_props v) k)"

text \<open>The object literal \<^verbatim>\<open>{ script_id: scriptName, ...v }\<close>: the properties copied
  from \<open>v\<close> are written after \<open>script_id\<close> and so take precedence over it.\<close>

definition spread_limits :: "string \<Rightarrow> jsval \<Rightarrow> (string \<times> jsval) list" where
  "spread_limits scriptName v = own_props v @ [(''script_id'', JStr scriptName)]"

text \<open>JavaScript truthiness, as the condition of an \<^verbatim>\<open>if\<close> and the operands of
  \<^verbatim>\<open>||\<close> read a value.\<close>

fun truthy :: "jsval \<Rightarrow> bool" where
  "truthy JUndefined = False"
| "truthy JNull = False"
| "truthy (JBool b) = b"
| "truthy (JNum n) = (n \<noteq> 0)"
| "truthy (JStr s) = (s \<noteq> [])"
| "truthy (JArr xs) = True"
| "truthy (JObj ps) = True"

text \<open>\<^verbatim>\<open>Array.prototype.includes\<close> on an array of strings.\<close>

definition array_includes :: "string list \<Rightarrow> string \<Rightarrow> bool" where
  "array_includes xs x = (x \<in> set xs)"

section \<open>Requests, responses and promises\<close>

record customer =
  customer_id :: string
  plan_type :: string

text \<open>
  The request as a handler receives it from the router and the middleware: the path
  parameter \<^verbatim>\<open>params.name\<close>, the customer that \<^verbatim>\<open>WithCustomer\<close> attached, and
  the body as \<^verbatim>\<open>request.json()\<close> reads it (\<open>None\<close>: the text is not JSON and the
  call throws a SyntaxError).
\<close>

record request =
  params_name :: string
  customer :: customer
  body :: "jsval option"

text \<open>
  The responses the handlers build. \<^verbatim>\<open>ApiResponse(msg, status)\<close> and
  \<^verbatim>\<open>JsonResponse(data, status?)\<close> are the constructors of \<^verbatim>\<open>./router\<close>, kept as
  they are called; \<open>ScriptResponse\<close> is a response that a dispatched script produced.
\<close>

datatype response =
    ApiResponse string nat
  | JsonResponse jsval "nat option"
  | ScriptResponse nat string

text \<open>Modelled from the spec: the status of a response; \<^verbatim>\<open>JsonResponse\<close> without a
  status argument answers 200 (the table of section 6: GET /script succeeds with 200).\<close>

fun status :: "response \<Rightarrow> nat" where
  "status (ApiResponse msg st) = st"
| "status (JsonResponse d st) = (case st of None \<Rightarrow> 200 | Some s \<Rightarrow> s)"
| "status (ScriptResponse st b) = st"

text \<open>The \<^verbatim>\<open>Response\<close> of a \<^verbatim>\<open>fetch\<close> to the platform's API, as the adapters of
  \<^verbatim>\<open>./resource\<close> return it. \<^verbatim>\<open>ok\<close> is the Fetch API's: the status is 2xx.
  \<open>resp_json = None\<close>: the body is not JSON and \<^verbatim>\<open>.json()\<close> throws.\<close>

record fetch_response =
  resp_status :: nat
  resp_url :: string
  resp_text :: string
  resp_json :: "jsval option"

definition ok :: "fetch_response \<Rightarrow> bool" where
  "ok r = (200 \<le> resp_status r \<and> resp_status r \<le> 299)"

definition json_of :: "fetch_response \<Rightarrow> exn + jsval" where
  "json_of r = (case resp_json r of None \<Rightarrow> Inl SyntaxError | Some v \<Rightarrow> Inr v)"

definition request_json :: "request \<Rightarrow> exn + jsval" where
  "request_json request = (case body request of None \<Rightarrow> Inl SyntaxError | Some v \<Rightarrow> Inr v)"

datatype 'a promise = Resolved 'a | Rejected exn

text \<open>\<^verbatim>\<open>p.catch(h)\<close>\<close>

definition promise_catch :: "'a promise \<Rightarrow> (exn \<Rightarrow> 'a) \<Rightarrow> 'a promise" where
  "promise_catch p h = (case p of Resolved r \<Rightarrow> Resolved r | Rejected e \<Rightarrow> Resolved (h e))"

text \<open>What the caller of an async handler gets when the handler returns the promise \<open>p\<close>:
  its value, or its rejection as an unhandled fault.\<close>

definition settle :: "'a promise \<Rightarrow> exn + 'a" where
  "settle p = (case p of Resolved r \<Rightarrow> Inr r | Rejected e \<Rightarrow> Inl e)"

section \<open>The execution namespace and the store\<close>

record limits_row =
  row_cpuMs :: jsval
  row_memory :: jsval

record 'a d1_result =
  results :: 'a

text \<open>A write that a handler asked the namespace or the store to make.\<close>

datatype write_call =
    PutScript string jsval
  | AddLimits "(string \<times> jsval) list"
  | PutTags string "string list"

text \<open>
  The state outside the gateway: the script bodies of the dispatch namespace, its tag
  index (script name, tags), the tables \<^verbatim>\<open>dispatch_limits\<close> and
  \<^verbatim>\<open>outbound_workers\<close> keyed by script id, and what \<^verbatim>\<open>console.log\<close> wrote.
  \<open>journal\<close> is a ghost field: the write calls made so far, in order, whatever
  their outcome. No handler reads it.
\<close>

record world =
  ns_scripts :: "string \<rightharpoonup> jsval"
  tag_index :: "(string \<times> string list) list"
  dispatch_limits :: "jsval \<rightharpoonup> limits_row"
  outbound_workers :: "string \<rightharpoonup> string"
  console :: "(string \<times> nat \<times> string) list"
  journal :: "write_call list"

text \<open>
  What the platform and the store decide in one request: for each adapter call whether it
  raises (\<open>Some e\<close>), for the two namespace writes the platform's answer, for a dispatched
  script what it does when invoked (it throws, or returns a promise), and the error
  translation \<^verbatim>\<open>handleDispatchError\<close> of \<^verbatim>\<open>./router\<close>, a parameter here.
\<close>

record env =
  fault_GetTagsOnScript :: "exn option"
  fault_GetScriptsByTags :: "exn option"
  fault_AddDispatchLimits :: "exn option"
  fault_GetDispatchLimitFromScript :: "exn option"
  fault_GetOutboundWorkerFromScript :: "exn option"
  fault_dispatcher_get :: "exn option"
  platform_put_script :: "string \<Rightarrow> jsval \<Rightarrow> exn + fetch_response"
  platform_put_tags :: "string \<Rightarrow> string list \<Rightarrow> exn + fetch_response"
  run_script :: "jsval \<Rightarrow> (string \<times> jsval) list \<Rightarrow> limits_row option \<Rightarrow> request
                   \<Rightarrow> exn + response promise"
  handleDispatchError :: "exn \<Rightarrow> response"

definition tags_of :: "world \<Rightarrow> string \<Rightarrow> string list" where
  "tags_of w n = (case map_of (tag_index w) n of None \<Rightarrow> [] | Some ts \<Rightarrow> ts)"

text \<open>Modelled from the spec: \<^verbatim>\<open>GetTagsOnScript\<close> of \<^verbatim>\<open>./resource\<close>. It reads the
  tags of a script name (none for an unclaimed name) and raises when the lookup fails.\<close>

definition GetTagsOnScript :: "env \<Rightarrow> world \<Rightarrow> string \<Rightarrow> exn + string list" where
  "GetTagsOnScript env w scriptName =
     (case fault_GetTagsOnScript env of Some e \<Rightarrow> Inl e | None \<Rightarrow> Inr (tags_of w scriptName))"

text \<open>Modelled from the spec: \<^verbatim>\<open>GetScriptsByTags\<close> of \<^verbatim>\<open>./resource\<close>, called with
  filters (tag, allow). It returns the names of the scripts that carry every allowed tag
  and no disallowed one, each once.\<close>

definition GetScriptsByTags ::
  "env \<Rightarrow> world \<Rightarrow> (string \<times> bool) list \<Rightarrow> exn + jsval" where
  "GetScriptsByTags env w filters =
     (case fault_GetScriptsByTags env of
        Some e \<Rightarrow> Inl e
      | None \<Rightarrow>
          Inr (JArr (map JStr (remdups
            (filter (\<lambda>n. list_all (\<lambda>(t, allow). array_includes (tags_of w n) t = allow) filters)
               (map fst (tag_index w)))))))"

text \<open>Modelled from the spec: \<^verbatim>\<open>PutScriptInDispatchNamespace\<close> of \<^verbatim>\<open>./resource\<close>,
  an idempotent create-or-replace of the body under the name. The platform answers; the
  body is stored when the answer is ok.\<close>

definition PutScriptInDispatchNamespace ::
  "env \<Rightarrow> world \<Rightarrow> string \<Rightarrow> jsval \<Rightarrow> (exn + fetch_response) \<times> world" where
  "PutScriptInDispatchNamespace env w scriptName scriptContent =
     (let w0 = w\<lparr>journal := journal w @ [PutScript scriptName scriptContent]\<rparr> in
      case platform_put_script env scriptName scriptContent of
        Inl e \<Rightarrow> (Inl e, w0)
      | Inr r \<Rightarrow>
          (Inr r,
           if ok r then w0\<lparr>ns_scripts := (ns_scripts w0)(scriptName \<mapsto> scriptContent)\<rparr>
           else w0))"

text \<open>Modelled from the spec: \<^verbatim>\<open>PutTagsOnScript\<close> of \<^verbatim>\<open>./resource\<close>. Tagging is
  additive: it does not remove prior tags.\<close>

definition PutTagsOnScript ::
  "env \<Rightarrow> world \<Rightarrow> string \<Rightarrow> string list \<Rightarrow> (exn + fetch_response) \<times> world" where
  "PutTagsOnScript env w scriptName ts =
     (let w0 = w\<lparr>journal := journal w @ [PutTags scriptName ts]\<rparr> in
      case platform_put_tags env scriptName ts of
        Inl e \<Rightarrow> (Inl e, w0)
      | Inr r \<Rightarrow>
          (Inr r,
           if ok r
           then w0\<lparr>tag_index :=
                   AList.update scriptName (tags_of w0 scriptName @ ts) (tag_index w0)\<rparr>
           else w0))"

text \<open>Modelled from the spec: \<^verbatim>\<open>AddDispatchLimits\<close> of \<^verbatim>\<open>./db\<close>. One row per
  script, the primary key is the \<^verbatim>\<open>script_id\<close> of the limits object, the columns are
  its \<^verbatim>\<open>cpuMs\<close> and \<^verbatim>\<open>memory\<close>; it raises when the store fails.\<close>

definition AddDispatchLimits ::
  "env \<Rightarrow> world \<Rightarrow> (string \<times> jsval) list \<Rightarrow> (exn + unit) \<times> world" where
  "AddDispatchLimits env w limits =
     (let w0 = w\<lparr>journal := journal w @ [AddLimits limits]\<rparr> in
      case fault_AddDispatchLimits env of
        Some e \<Rightarrow> (Inl e, w0)
      | None \<Rightarrow>
          (Inr (),
           w0\<lparr>dispatch_limits := (dispatch_limits w0)
               (lookup limits ''script_id'' \<mapsto>
                  \<lparr>row_cpuMs = lookup limits ''cpuMs'', row_memory = lookup limits ''memory''\<rparr>)\<rparr>))"

text \<open>Modelled from the spec: \<^verbatim>\<open>GetDispatchLimitFromScript\<close> and
  \<^verbatim>\<open>GetOutboundWorkerFromScript\<close> of \<^verbatim>\<open>./db\<close>. The absence of a row is not an
  error; a failing store raises.\<close>

definition GetDispatchLimitFromScript ::
  "env \<Rightarrow> world \<Rightarrow> string \<Rightarrow> exn + limits_row option d1_result" where
  "GetDispatchLimitFromScript env w scriptName =
     (case fault_GetDispatchLimitFromScript env of
        Some e \<Rightarrow> Inl e
      | None \<Rightarrow> Inr \<lparr>results = dispatch_limits w (JStr scriptName)\<rparr>)"

definition GetOutboundWorkerFromScript ::
  "env \<Rightarrow> world \<Rightarrow> string \<Rightarrow> exn + string option d1_result" where
  "GetOutboundWorkerFromScript env w scriptName =
     (case fault_GetOutboundWorkerFromScript env of
        Some e \<Rightarrow> Inl e
      | None \<Rightarrow> Inr \<lparr>results = outbound_workers w scriptName\<rparr>)"

text \<open>Modelled from the spec: the dispatch namespace binding \<^verbatim>\<open>env.dispatcher\<close>.
  \<^verbatim>\<open>get\<close> is lazy: the handle records the name, the worker arguments and the limits.
  \<^verbatim>\<open>fetch\<close> on the handle finds out whether the script exists, and runs it.\<close>

record worker =
  worker_name :: string
  worker_args :: "(string \<times> jsval) list"
  worker_limits :: "limits_row option"

definition dispatcher_get ::
  "env \<Rightarrow> string \<Rightarrow> (string \<times> jsval) list \<Rightarrow> limits_row option \<Rightarrow> exn + worker" where
  "dispatcher_get env scriptName workerArgs limits =
     (case fault_dispatcher_get env of
        Some e \<Rightarrow> Inl e
      | None \<Rightarrow> Inr \<lparr>worker_name = scriptName, worker_args = workerArgs, worker_limits = limits\<rparr>)"

definition worker_fetch :: "env \<Rightarrow> world \<Rightarrow> worker \<Rightarrow> request \<Rightarrow> exn + response promise" where
  "worker_fetch env w wk request =
     (case ns_scripts w (worker_name wk) of
        None \<Rightarrow> Inr (Rejected WorkerNotFound)
      | Some content \<Rightarrow> run_script env content (worker_args wk) (worker_limits wk) request)"

section \<open>The handlers of index.ts\<close>

subsection \<open>GET /script\<close>

definition list_scripts :: "env \<Rightarrow> request \<Rightarrow> world \<Rightarrow> (exn + response) \<times> world" where
  "list_scripts env request w =
     (case GetScriptsByTags env w [(customer_id (customer request), True)] of
        Inl e \<Rightarrow> (Inl e, w)
      | Inr scripts \<Rightarrow> (Inr (JsonResponse scripts None), w))"

subsection \<open>GET /dispatch/:name\<close>

text \<open>Lines 110 to 114: the two rows are read, the worker arguments are the empty object,
  and the handle is taken with the limits row alone.\<close>

definition dispatch_handle :: "env \<Rightarrow> request \<Rightarrow> world \<Rightarrow> exn + worker" where
  "dispatch_handle env request w =
     (let scriptName = params_name request in
      case GetDispatchLimitFromScript env w scriptName of
        Inl e \<Rightarrow> Inl e
      | Inr dl \<Rightarrow>
          (case GetOutboundWorkerFromScript env w scriptName of
             Inl e \<Rightarrow> Inl e
           | Inr ow \<Rightarrow>
               (let dispatchLimits = results dl;
                    outboundWorker = results ow;
                    workerArgs = []
                in dispatcher_get env scriptName workerArgs dispatchLimits)))"

text \<open>The body of the \<^verbatim>\<open>try\<close> block: it throws, or returns the promise
  \<^verbatim>\<open>worker.fetch(request).catch(handleDispatchError)\<close>.\<close>

definition dispatch_try :: "env \<Rightarrow> request \<Rightarrow> world \<Rightarrow> exn + response promise" where
  "dispatch_try env request w =
     (case dispatch_handle env request w of
        Inl e \<Rightarrow> Inl e
      | Inr worker \<Rightarrow>
          (case worker_fetch env w worker request of
             Inl e \<Rightarrow> Inl e
           | Inr p \<Rightarrow> Inr (promise_catch p (handleDispatchError env))))"

definition dispatch :: "env \<Rightarrow> request \<Rightarrow> world \<Rightarrow> exn + response" where
  "dispatch env request w =
     (case dispatch_try env request w of
        Inl e \<Rightarrow> Inr (handleDispatchError env e)
      | Inr p \<Rightarrow> settle p)"

subsection \<open>PUT /script/:name\<close>

definition expected_json :: string where
  "expected_json =
     ''Expected json: { script: string, dispatch_config: { limits?: { cpuMs: number, memory: number }, outbound: string }}''"

text \<open>The second \<^verbatim>\<open>try\<close> block (lines 160 to 177): the script content and the limits
  object, or what was thrown.\<close>

definition parse_body :: "string \<Rightarrow> request \<Rightarrow> exn + jsval \<times> (string \<times> jsval) list" where
  "parse_body scriptName request =
     (case request_json request of
        Inl e \<Rightarrow> Inl e
      | Inr data \<Rightarrow>
          (case get_prop data ''script'' of
             Inl e \<Rightarrow> Inl e
           | Inr scriptContent \<Rightarrow>
               (case get_prop data ''dispatch_config'' of
                  Inl e \<Rightarrow> Inl e
                | Inr dispatch_config \<Rightarrow>
                    (case get_prop dispatch_config ''limits'' of
                       Inl e \<Rightarrow> Inl e
                     | Inr l \<Rightarrow> Inr (scriptContent, spread_limits scriptName l)))))"

text \<open>Lines 187 to 216: the upload, the limits, the tags. A fault that an adapter raises
  here is caught nowhere and leaves the handler (\<open>Inl\<close>), with the writes made so far.\<close>

definition upload_store ::
  "env \<Rightarrow> request \<Rightarrow> world \<Rightarrow> jsval \<Rightarrow> (string \<times> jsval) list \<Rightarrow> (exn + response) \<times> world" where
  "upload_store env request w scriptContent limits =
     (let scriptName = params_name request in
      case PutScriptInDispatchNamespace env w scriptName scriptContent of
        (Inl e, w1) \<Rightarrow> (Inl e, w1)
      | (Inr scriptResponse, w1) \<Rightarrow>
          if \<not> ok scriptResponse
          then (case json_of scriptResponse of
                  Inl e \<Rightarrow> (Inl e, w1)
                | Inr payload \<Rightarrow> (Inr (JsonResponse payload (Some 400)), w1))
          else
            (case (if truthy (lookup limits ''cpuMs'') \<or> truthy (lookup limits ''memory'')
                   then AddDispatchLimits env w1 limits
                   else (Inr (), w1)) of
               (Inl e, w2) \<Rightarrow> (Inl e, w2)
             | (Inr u, w2) \<Rightarrow>
                 (case PutTagsOnScript env w2 scriptName
                         [customer_id (customer request), plan_type (customer request)] of
                    (Inl e, w3) \<Rightarrow> (Inl e, w3)
                  | (Inr tagsResponse, w3) \<Rightarrow>
                      (Inr (ApiResponse ''Success'' 201),
                       if \<not> ok tagsResponse
                       then w3\<lparr>console := console w3 @
                              [(resp_url tagsResponse, resp_status tagsResponse,
                                resp_text tagsResponse)]\<rparr>
                       else w3))))"

definition upload :: "env \<Rightarrow> request \<Rightarrow> world \<Rightarrow> (exn + response) \<times> world" where
  "upload env request w =
     (let scriptName = params_name request in
      case GetTagsOnScript env w scriptName of
        Inl e \<Rightarrow> (Inr (ApiResponse ''Could not complete request'' 500), w)
      | Inr tags \<Rightarrow>
          if length tags > 0 \<and> \<not> array_includes tags (customer_id (customer request))
          then (Inr (ApiResponse ''Script name already reserved'' 409), w)
          else
            (case parse_body scriptName request of
               Inl e \<Rightarrow> (Inr (ApiResponse expected_json 400), w)
             | Inr (scriptContent, limits) \<Rightarrow> upload_store env request w scriptContent limits))"

section \<open>Notions the properties speak of\<close>

text \<open>The value has the field \<open>k\<close> as an own property.\<close>

definition has_field :: "jsval \<Rightarrow> string \<Rightarrow> bool" where
  "has_field v k = (k \<in> fst ` set (own_props v))"

text \<open>The name is reserved against the requesting customer: it carries tags, and none of
  them is the customer's id.\<close>

definition reserved :: "world \<Rightarrow> request \<Rightarrow> bool" where
  "reserved w request =
     (tags_of w (params_name request) \<noteq> [] \<and>
      customer_id (customer request) \<notin> set (tags_of w (params_name request)))"

text \<open>The value of \<^verbatim>\<open>dispatch_config.limits\<close> in the body of a request
  (\<^verbatim>\<open>undefined\<close> where the body has none).\<close>

definition request_limits :: "request \<Rightarrow> jsval" where
  "request_limits request =
     (case body request of
        None \<Rightarrow> JUndefined
      | Some data \<Rightarrow>
          (case get_prop data ''dispatch_config'' of
             Inl e \<Rightarrow> JUndefined
           | Inr dispatch_config \<Rightarrow>
               (case get_prop dispatch_config ''limits'' of
                  Inl e \<Rightarrow> JUndefined
                | Inr l \<Rightarrow> l)))"

text \<open>The field \<open>k\<close> of a limits value, \<^verbatim>\<open>undefined\<close> when it has none.\<close>

definition limit_field :: "jsval \<Rightarrow> string \<Rightarrow> jsval" where
  "limit_field l k = lookup (own_props l) k"

text \<open>A limit is given: \<^verbatim>\<open>cpuMs\<close> or \<^verbatim>\<open>memory\<close> of the request's limits is
  truthy (present, and not 0, null, false or the empty string).\<close>

definition limit_given :: "request \<Rightarrow> bool" where
  "limit_given request =
     (truthy (limit_field (request_limits request) ''cpuMs'') \<or>
      truthy (limit_field (request_limits request) ''memory''))"

text \<open>The key and the columns of the row that the request's limits make: the key is the
  script name, unless the limits carry a \<^verbatim>\<open>script_id\<close> of their own.\<close>

definition requested_key :: "request \<Rightarrow> jsval" where
  "requested_key request =
     lookup (spread_limits (params_name request) (request_limits request)) ''script_id''"

definition requested_row :: "request \<Rightarrow> limits_row" where
  "requested_row request =
     \<lparr>row_cpuMs = limit_field (request_limits request) ''cpuMs'',
      row_memory = limit_field (request_limits request) ''memory''\<rparr>"

text \<open>The write calls made since the journal had the length \<open>n\<close>.\<close>

definition writes_since :: "nat \<Rightarrow> world \<Rightarrow> write_call list" where
  "writes_since n w = drop n (journal w)"

fun is_AddLimits :: "write_call \<Rightarrow> bool" where
  "is_AddLimits (AddLimits l) = True"
| "is_AddLimits c = False"

section \<open>Example inputs\<close>

definition alice :: customer where
  "alice = \<lparr>customer_id = ''alice'', plan_type = ''free''\<rparr>"

definition bob :: customer where
  "bob = \<lparr>customer_id = ''bob'', plan_type = ''paid''\<rparr>"

definition accepted :: fetch_response where
  "accepted = \<lparr>resp_status = 200, resp_url = ''/scripts/a'', resp_text = ''{}'',
                resp_json = Some (JObj [])\<rparr>"

definition refused :: fetch_response where
  "refused = \<lparr>resp_status = 422, resp_url = ''/scripts/a'', resp_text = ''no'',
               resp_json = Some (JObj [(''error'', JStr ''no'')])\<rparr>"

text \<open>A platform that accepts every script and every tag, a store that answers, a script
  that replies 200 when dispatched.\<close>

definition healthy :: env where
  "healthy =
     \<lparr>fault_GetTagsOnScript = None,
      fault_GetScriptsByTags = None,
      fault_AddDispatchLimits = None,
      fault_GetDispatchLimitFromScript = None,
      fault_GetOutboundWorkerFromScript = None,
      fault_dispatcher_get = None,
      platform_put_script = (\<lambda>n c. Inr accepted),
      platform_put_tags = (\<lambda>n ts. Inr accepted),
      run_script = (\<lambda>c a l r. Inr (Resolved (ScriptResponse 200 ''hello''))),
      handleDispatchError = (\<lambda>e. ApiResponse ''Could not dispatch'' 500)\<rparr>"

definition fresh :: world where
  "fresh =
     \<lparr>ns_scripts = Map.empty, tag_index = [], dispatch_limits = Map.empty,
      outbound_workers = Map.empty, console = [], journal = []\<rparr>"

text \<open>A namespace in which alice owns the script a.\<close>

definition claimed :: world where
  "claimed =
     \<lparr>ns_scripts = [''a'' \<mapsto> JStr ''old''], tag_index = [(''a'', [''alice'', ''free''])],
      dispatch_limits = Map.empty, outbound_workers = Map.empty, console = [], journal = []\<rparr>"

definition put_a :: "customer \<Rightarrow> jsval option \<Rightarrow> request" where
  "put_a c b = \<lparr>params_name = ''a'', customer = c, body = b\<rparr>"

definition upload_body :: "string \<Rightarrow> jsval \<Rightarrow> jsval" where
  "upload_body src dispatch_config =
     JObj [(''script'', JStr src), (''dispatch_config'', dispatch_config)]"

section \<open>Facts about the model\<close>

lemmas dispatch_defs =
  dispatch_def dispatch_try_def dispatch_handle_def dispatcher_get_def worker_fetch_def
  GetDispatchLimitFromScript_def GetOutboundWorkerFromScript_def promise_catch_def settle_def
  Let_def

lemmas handler_defs =
  upload_def upload_store_def parse_body_def request_json_def json_of_def ok_def
  GetTagsOnScript_def PutScriptInDispatchNamespace_def PutTagsOnScript_def
  AddDispatchLimits_def tags_of_def lookup_def spread_limits_def array_includes_def Let_def

lemmas example_defs =
  healthy_def fresh_def claimed_def put_a_def alice_def bob_def accepted_def refused_def
  upload_body_def

lemma lookup_absent: "k \<notin> fst ` set ps \<Longrightarrow> lookup ps k = JUndefined"
  by (simp add: lookup_def map_of_eq_None_iff[THEN iffD2])

lemma get_prop_absent:
  "\<not> has_field v k \<Longrightarrow> get_prop v k = Inl TypeError \<or> get_prop v k = Inr JUndefined"
  by (cases v) (simp_all add: has_field_def lookup_absent del: own_props.simps)

lemma parse_body_no_dispatch_config:
  assumes "body request = Some data" and "\<not> has_field data ''dispatch_config''"
  shows "\<exists>e. parse_body scriptName request = Inl e"
  using get_prop_absent[OF assms(2)] assms(1)
  by (auto simp: parse_body_def request_json_def split: sum.splits)

text \<open>Past the ownership check the handler parses the body and goes on to the writes.\<close>

lemma upload_passes_check:
  assumes "fault_GetTagsOnScript env = None" and "\<not> reserved w request"
  shows "upload env request w =
     (case parse_body (params_name request) request of
        Inl e \<Rightarrow> (Inr (ApiResponse expected_json 400), w)
      | Inr (scriptContent, limits) \<Rightarrow> upload_store env request w scriptContent limits)"
  using assms
  by (auto simp: upload_def GetTagsOnScript_def reserved_def array_includes_def Let_def)

text \<open>The write phase answers 201, or 400 with the platform's payload, and nothing else.\<close>

lemma upload_store_not_early:
  "fst (upload_store env request w sc limits) = Inr r \<Longrightarrow>
     r = ApiResponse ''Success'' 201 \<or> (\<exists>p. r = JsonResponse p (Some 400))"
  by (auto simp: upload_store_def Let_def json_of_def
           split: prod.splits sum.splits if_splits option.splits)

lemma upload_store_accepted_script:
  assumes "platform_put_script env (params_name request) sc = Inr r" and "ok r"
  shows "ns_scripts (snd (upload_store env request w sc limits)) (params_name request) = Some sc"
  using assms
  by (auto simp: upload_store_def PutScriptInDispatchNamespace_def AddDispatchLimits_def
        PutTagsOnScript_def Let_def split: sum.splits prod.splits option.splits if_splits)

lemma parse_body_limits:
  "parse_body n request = Inr (sc, limits) \<Longrightarrow> limits = spread_limits n (request_limits request)"
  by (auto simp: parse_body_def request_limits_def request_json_def split: sum.splits option.splits)

lemma lookup_spread_limits:
  "k \<noteq> ''script_id'' \<Longrightarrow> lookup (spread_limits n l) k = limit_field l k"
  by (simp add: lookup_def spread_limits_def limit_field_def map_add_def split: option.splits)

lemma upload_success_store:
  assumes "upload env request w = (Inr (ApiResponse ''Success'' 201), w')"
  shows "\<exists>sc. upload_store env request w sc
            (spread_limits (params_name request) (request_limits request))
          = (Inr (ApiResponse ''Success'' 201), w')"
  using assms parse_body_limits[of "params_name request" request]
  by (auto simp: upload_def Let_def expected_json_def split: sum.splits if_splits prod.splits)

text \<open>The writes of a successful write phase: the script, the limits when one is truthy,
  the tags, in this order.\<close>

lemma upload_store_success:
  assumes "upload_store env request w sc limits = (Inr (ApiResponse ''Success'' 201), w')"
  shows "dispatch_limits w' =
           (if truthy (lookup limits ''cpuMs'') \<or> truthy (lookup limits ''memory'')
            then (dispatch_limits w)
                   (lookup limits ''script_id'' \<mapsto>
                      \<lparr>row_cpuMs = lookup limits ''cpuMs'', row_memory = lookup limits ''memory''\<rparr>)
            else dispatch_limits w) \<and>
         writes_since (length (journal w)) w' =
           PutScript (params_name request) sc #
           (if truthy (lookup limits ''cpuMs'') \<or> truthy (lookup limits ''memory'')
            then [AddLimits limits] else []) @
           [PutTags (params_name request)
              [customer_id (customer request), plan_type (customer request)]]"
  using assms
  by (auto simp: upload_store_def PutScriptInDispatchNamespace_def AddDispatchLimits_def
        PutTagsOnScript_def writes_since_def Let_def
        split: sum.splits prod.splits option.splits if_splits)

lemma tags_of_in_index: "t \<in> set (tags_of w n) \<Longrightarrow> n \<in> fst ` set (tag_index w)"
  by (cases "map_of (tag_index w) n")
     (auto simp: tags_of_def dest: map_of_SomeD intro: rev_image_eqI)

lemma dispatch_handle_outbound:
  "dispatch_handle env request (w\<lparr>outbound_workers := t\<rparr>) = dispatch_handle env request w"
  by (simp add: dispatch_handle_def GetDispatchLimitFromScript_def
        GetOutboundWorkerFromScript_def Let_def split: option.splits)

lemma worker_fetch_outbound:
  "worker_fetch env (w\<lparr>outbound_workers := t\<rparr>) wk request = worker_fetch env w wk request"
  by (simp add: worker_fetch_def)

section \<open>Upload: errors reported before any write\<close>

text \<open>
  Claim C4. If the tag lookup at the start of an upload fails, the upload answers 500 and
  the state is what it was. More generally, whenever the upload answers with status 500,
  with status 409, or with the 400 of a bad body, the state after the request is the state
  before it: no write call was made (the journal is part of the state) and neither the
  namespace nor the store has changed.
\<close>

theorem upload_errors_before_any_write:
  "(\<forall>e. fault_GetTagsOnScript env = Some e \<longrightarrow>
       upload env request w = (Inr (ApiResponse ''Could not complete request'' 500), w)) \<and>
   (\<forall>r. fst (upload env request w) = Inr r \<and>
        (status r = 500 \<or> status r = 409 \<or> r = ApiResponse expected_json 400) \<longrightarrow>
        snd (upload env request w) = w)"
proof (intro conjI allI impI)
  fix e assume "fault_GetTagsOnScript env = Some e"
  then show "upload env request w = (Inr (ApiResponse ''Could not complete request'' 500), w)"
    by (simp add: upload_def GetTagsOnScript_def)
next
  fix r
  assume a: "fst (upload env request w) = Inr r \<and>
        (status r = 500 \<or> status r = 409 \<or> r = ApiResponse expected_json 400)"
  show "snd (upload env request w) = w"
  proof (cases "\<exists>sc limits. upload env request w = upload_store env request w sc limits
                   \<and> parse_body (params_name request) request = Inr (sc, limits)")
    case True
    then obtain sc limits where u: "upload env request w = upload_store env request w sc limits"
      by blast
    from a u upload_store_not_early[of env request w sc limits r]
    have "r = ApiResponse ''Success'' 201 \<or> (\<exists>p. r = JsonResponse p (Some 400))" by simp
    with a have False by (auto simp: expected_json_def)
    then show ?thesis ..
  next
    case False
    then show ?thesis
      by (auto simp: upload_def Let_def split: sum.splits if_splits prod.splits)
  qed
qed

theorem upload_errors_before_any_write_witness:
  "upload (healthy\<lparr>fault_GetTagsOnScript := Some (Fault ''unavailable'')\<rparr>)
      (put_a alice None) claimed
     = (Inr (ApiResponse ''Could not complete request'' 500), claimed) \<and>
   fst (upload healthy (put_a bob None) claimed)
     = Inr (ApiResponse ''Script name already reserved'' 409) \<and>
   snd (upload healthy (put_a bob None) claimed) = claimed"
proof -
  let ?down = "healthy\<lparr>fault_GetTagsOnScript := Some (Fault ''unavailable'')\<rparr>"
  have down: "fault_GetTagsOnScript ?down = Some (Fault ''unavailable'')"
    by simp
  have r409: "fst (upload healthy (put_a bob None) claimed)
     = Inr (ApiResponse ''Script name already reserved'' 409)"
    by (simp add: handler_defs example_defs)
  from upload_errors_before_any_write[of ?down "put_a alice None" claimed] down
  have "upload ?down (put_a alice None) claimed
     = (Inr (ApiResponse ''Could not complete request'' 500), claimed)"
    by blast
  moreover from upload_errors_before_any_write[of healthy "put_a bob None" claimed] r409
  have "snd (upload healthy (put_a bob None) claimed) = claimed"
    by simp
  ultimately show ?thesis using r409 by simp
qed

section \<open>Upload: a body without dispatch_config\<close>

text \<open>
  Claim C9. For every upload request whose body is valid JSON but has no
  \<^verbatim>\<open>dispatch_config\<close> field, reading \<^verbatim>\<open>dispatch_config.limits\<close> faults: no
  upload and no persistence is performed (the state, journal included, is what it was),
  and for a request that passes the ownership check (the tags are read, and the name is
  not reserved against the customer) the answer is 400 with the expected-shape message.
\<close>

theorem upload_without_dispatch_config:
  assumes "body request = Some data" and "\<not> has_field data ''dispatch_config''"
  shows "snd (upload env request w) = w \<and>
         (fault_GetTagsOnScript env = None \<and> \<not> reserved w request \<longrightarrow>
            fst (upload env request w) = Inr (ApiResponse expected_json 400))"
proof -
  obtain e where p: "parse_body (params_name request) request = Inl e"
    using parse_body_no_dispatch_config[OF assms] by blast
  have "snd (upload env request w) = w"
    using p by (simp add: upload_def Let_def split: sum.splits)
  moreover have "fault_GetTagsOnScript env = None \<and> \<not> reserved w request \<longrightarrow>
            fst (upload env request w) = Inr (ApiResponse expected_json 400)"
    using p by (simp add: upload_passes_check)
  ultimately show ?thesis by simp
qed

theorem upload_without_dispatch_config_witness:
  "upload healthy (put_a alice (Some (JObj [(''script'', JStr ''export default {}'')]))) fresh
     = (Inr (ApiResponse expected_json 400), fresh)"
proof -
  let ?data = "JObj [(''script'', JStr ''export default {}'')]"
  have b: "body (put_a alice (Some ?data)) = Some ?data"
    by (simp add: put_a_def)
  have f: "\<not> has_field ?data ''dispatch_config''"
    by (simp add: has_field_def)
  have c: "fault_GetTagsOnScript healthy = None \<and> \<not> reserved fresh (put_a alice (Some ?data))"
    by (simp add: healthy_def reserved_def tags_of_def fresh_def put_a_def)
  from upload_without_dispatch_config[OF b f, of healthy fresh] c
  show ?thesis by (simp add: prod_eq_iff)
qed

section \<open>Upload: ownership of a name\<close>

text \<open>
  Claim C3. When the tags of the name are read, are not empty and none of them is the
  requesting customer's id, the upload answers 409 ("Script name already reserved") and
  the state (script bodies and tags included) is what it was. When the tags contain the
  customer's id, the upload is not refused with 409 and proceeds as an overwrite: for a
  body that parses and a platform that accepts it, the body stored under the name
  afterwards is the uploaded one.
\<close>

theorem upload_name_reserved:
  assumes "fault_GetTagsOnScript env = None"
  shows "(reserved w request \<longrightarrow>
            upload env request w = (Inr (ApiResponse ''Script name already reserved'' 409), w)) \<and>
         (customer_id (customer request) \<in> set (tags_of w (params_name request)) \<longrightarrow>
            fst (upload env request w) \<noteq> Inr (ApiResponse ''Script name already reserved'' 409) \<and>
            (\<forall>sc limits r.
               parse_body (params_name request) request = Inr (sc, limits) \<and>
               platform_put_script env (params_name request) sc = Inr r \<and> ok r \<longrightarrow>
               ns_scripts (snd (upload env request w)) (params_name request) = Some sc))"
proof (intro conjI impI allI)
  assume "reserved w request"
  with assms
  show "upload env request w = (Inr (ApiResponse ''Script name already reserved'' 409), w)"
    by (auto simp: upload_def GetTagsOnScript_def reserved_def array_includes_def Let_def)
next
  assume own: "customer_id (customer request) \<in> set (tags_of w (params_name request))"
  then have nr: "\<not> reserved w request" by (simp add: reserved_def)
  show "fst (upload env request w) \<noteq> Inr (ApiResponse ''Script name already reserved'' 409)"
  proof (cases "parse_body (params_name request) request")
    case (Inl e)
    then show ?thesis
      by (simp add: upload_passes_check[OF assms nr] expected_json_def)
  next
    case (Inr p)
    obtain sc limits where p: "p = (sc, limits)" by (cases p)
    show ?thesis
      using upload_store_not_early[of env request w sc limits
               "ApiResponse ''Script name already reserved'' 409"] Inr p
      by (auto simp: upload_passes_check[OF assms nr])
  qed
next
  fix sc limits r
  assume own: "customer_id (customer request) \<in> set (tags_of w (params_name request))"
    and a: "parse_body (params_name request) request = Inr (sc, limits) \<and>
            platform_put_script env (params_name request) sc = Inr r \<and> ok r"
  from own have nr: "\<not> reserved w request" by (simp add: reserved_def)
  from a show "ns_scripts (snd (upload env request w)) (params_name request) = Some sc"
    by (simp add: upload_passes_check[OF assms nr] upload_store_accepted_script)
qed

theorem upload_name_reserved_witness:
  "upload healthy (put_a bob (Some (upload_body ''new'' (JObj [])))) claimed
     = (Inr (ApiResponse ''Script name already reserved'' 409), claimed) \<and>
   ns_scripts (snd (upload healthy (put_a alice (Some (upload_body ''new'' (JObj [])))) claimed)) ''a''
     = Some (JStr ''new'')"
proof -
  let ?b = "Some (upload_body ''new'' (JObj []))"
  have up: "fault_GetTagsOnScript healthy = None"
    by (simp add: healthy_def)
  have res: "reserved claimed (put_a bob ?b)"
    by (simp add: reserved_def tags_of_def example_defs)
  have own: "customer_id (customer (put_a alice ?b)) \<in> set (tags_of claimed (params_name (put_a alice ?b)))"
    by (simp add: tags_of_def example_defs)
  have run: "parse_body (params_name (put_a alice ?b)) (put_a alice ?b)
               = Inr (JStr ''new'', spread_limits ''a'' JUndefined) \<and>
             platform_put_script healthy (params_name (put_a alice ?b)) (JStr ''new'') = Inr accepted \<and>
             ok accepted"
    by (simp add: parse_body_def request_json_def lookup_def ok_def example_defs)
  from upload_name_reserved[OF up, of claimed "put_a bob ?b"] res
  have "upload healthy (put_a bob ?b) claimed
          = (Inr (ApiResponse ''Script name already reserved'' 409), claimed)"
    by blast
  moreover from upload_name_reserved[OF up, of claimed "put_a alice ?b"] own run
  have "ns_scripts (snd (upload healthy (put_a alice ?b) claimed)) (params_name (put_a alice ?b))
          = Some (JStr ''new'')"
    by blast
  ultimately show ?thesis by (simp add: put_a_def)
qed

section \<open>Upload: a script that the platform rejects\<close>

text \<open>
  Claim C5. If the execution platform rejects the script (its answer is not ok) with a
  JSON diagnostic, the upload answers 400 with that payload as its body, and the only
  write call of the request is the rejected upload: no limits are persisted and no tags
  are put, the state differs from the state before in the journal entry of that call only.
\<close>

theorem upload_platform_rejection:
  assumes "fault_GetTagsOnScript env = None" and "\<not> reserved w request"
    and "parse_body (params_name request) request = Inr (sc, limits)"
    and "platform_put_script env (params_name request) sc = Inr r" and "\<not> ok r"
    and "resp_json r = Some payload"
  shows "upload env request w =
     (Inr (JsonResponse payload (Some 400)),
      w\<lparr>journal := journal w @ [PutScript (params_name request) sc]\<rparr>)"
  using assms(3-6)
  by (simp add: upload_passes_check[OF assms(1,2)] upload_store_def
        PutScriptInDispatchNamespace_def json_of_def Let_def)

theorem upload_platform_rejection_witness:
  "upload (healthy\<lparr>platform_put_script := \<lambda>n c. Inr refused\<rparr>)
      (put_a alice (Some (upload_body ''syntax error'' (JObj [(''limits'', JObj [(''cpuMs'', JNum 50)])]))))
      fresh
     = (Inr (JsonResponse (JObj [(''error'', JStr ''no'')]) (Some 400)),
        fresh\<lparr>journal := [PutScript ''a'' (JStr ''syntax error'')]\<rparr>)"
proof -
  let ?env = "healthy\<lparr>platform_put_script := \<lambda>n c. Inr refused\<rparr>"
  let ?l = "JObj [(''cpuMs'', JNum 50)]"
  let ?rq = "put_a alice (Some (upload_body ''syntax error'' (JObj [(''limits'', ?l)])))"
  have 1: "fault_GetTagsOnScript ?env = None"
    by (simp add: healthy_def)
  have 2: "\<not> reserved fresh ?rq"
    by (simp add: reserved_def tags_of_def example_defs)
  have 3: "parse_body (params_name ?rq) ?rq = Inr (JStr ''syntax error'', spread_limits ''a'' ?l)"
    by (simp add: parse_body_def request_json_def lookup_def example_defs)
  have 4: "platform_put_script ?env (params_name ?rq) (JStr ''syntax error'') = Inr refused"
    by simp
  have 5: "\<not> ok refused"
    by (simp add: ok_def refused_def)
  have 6: "resp_json refused = Some (JObj [(''error'', JStr ''no'')])"
    by (simp add: refused_def)
  from upload_platform_rejection[OF 1 2 3 4 5 6]
  show ?thesis by (simp add: put_a_def fresh_def)
qed

section \<open>Upload: tagging that fails\<close>




section \<open>Upload: a body without the script field\<close>

text \<open>
  Reading \<^verbatim>\<open>data.script\<close> on an object without that field gives
  \<^verbatim>\<open>undefined\<close> and throws nothing. So when \<^verbatim>\<open>dispatch_config\<close> is there,
  the second \<^verbatim>\<open>try\<close> block ends normally and the handler goes on to the writes with
  \<^verbatim>\<open>undefined\<close> as the script content, whatever the platform is.
\<close>

lemma upload_missing_script_reaches_platform:
  assumes "fault_GetTagsOnScript env = None" and "\<not> reserved w request"
    and "body request = Some (JObj ps)" and "\<not> has_field (JObj ps) ''script''"
    and "lookup ps ''dispatch_config'' = JObj qs"
  shows "upload env request w =
           upload_store env request w JUndefined
             (spread_limits (params_name request) (lookup qs ''limits''))"
  using assms(3-5)
  by (simp add: upload_passes_check[OF assms(1,2)] parse_body_def request_json_def
        has_field_def lookup_absent)

text \<open>
  Claim C1. The claim is that a body without the \<^verbatim>\<open>script\<close> field is answered 400
  with the expected-shape message. At the body \<^verbatim>\<open>{"dispatch_config":{}}\<close>, for an
  unclaimed name and a platform that accepts what it is sent, the handler instead uploads
  \<^verbatim>\<open>undefined\<close> as the script, tags the name and answers 201.
\<close>

theorem upload_missing_script_field_is_stored:
  "\<not> has_field (JObj [(''dispatch_config'', JObj [])]) ''script'' \<and>
   fst (upload healthy (put_a alice (Some (JObj [(''dispatch_config'', JObj [])]))) fresh)
     = Inr (ApiResponse ''Success'' 201) \<and>
   ns_scripts (snd (upload healthy (put_a alice (Some (JObj [(''dispatch_config'', JObj [])]))) fresh))
     ''a'' = Some JUndefined \<and>
   journal (snd (upload healthy (put_a alice (Some (JObj [(''dispatch_config'', JObj [])]))) fresh))
     = [PutScript ''a'' JUndefined, PutTags ''a'' [''alice'', ''free'']]"
  by (simp add: has_field_def handler_defs example_defs)

section \<open>Upload: which limits are persisted\<close>

text \<open>
  Claim C2, as stated: a row is persisted if and only if \<^verbatim>\<open>cpuMs\<close> or
  \<^verbatim>\<open>memory\<close> is present in the limits of the request. It fails for a limit that is
  present and falsy: the upload of \<^verbatim>\<open>dispatch_config:{limits:{cpuMs:0}}\<close> succeeds,
  \<^verbatim>\<open>cpuMs\<close> is present, and no row is written (the handler tests
  \<^verbatim>\<open>limits.cpuMs || limits.memory\<close>).
\<close>

theorem upload_zero_limit_not_persisted:
  "fst (upload healthy
          (put_a alice (Some (upload_body ''new'' (JObj [(''limits'', JObj [(''cpuMs'', JNum 0)])]))))
          fresh) = Inr (ApiResponse ''Success'' 201) \<and>
   has_field
     (request_limits
        (put_a alice (Some (upload_body ''new'' (JObj [(''limits'', JObj [(''cpuMs'', JNum 0)])])))))
     ''cpuMs'' \<and>
   dispatch_limits (snd (upload healthy
          (put_a alice (Some (upload_body ''new'' (JObj [(''limits'', JObj [(''cpuMs'', JNum 0)])]))))
          fresh)) = Map.empty \<and>
   journal (snd (upload healthy
          (put_a alice (Some (upload_body ''new'' (JObj [(''limits'', JObj [(''cpuMs'', JNum 0)])]))))
          fresh)) = [PutScript ''a'' (JStr ''new''), PutTags ''a'' [''alice'', ''free'']]"
  by (simp add: has_field_def request_limits_def handler_defs example_defs)

text \<open>
  Claim C2, amended. For every successful upload (201), a limits row is persisted if and
  only if \<^verbatim>\<open>cpuMs\<close> or \<^verbatim>\<open>memory\<close> of the request's
  \<^verbatim>\<open>dispatch_config.limits\<close> is truthy (present, and not 0, null, false or the empty
  string): the table after the upload is the table before with that one row written when
  a limit is given and the table before otherwise, and a call of
  \<^verbatim>\<open>AddDispatchLimits\<close> is among the write calls of the request exactly when a
  limit is given. In particular \<^verbatim>\<open>dispatch_config:{limits:{cpuMs:50}}\<close> stores a row
  with \<^verbatim>\<open>cpuMs\<close> 50 and \<^verbatim>\<open>dispatch_config:{}\<close> stores no row.
\<close>

theorem upload_persists_truthy_limits:
  assumes "upload env request w = (Inr (ApiResponse ''Success'' 201), w')"
  shows "dispatch_limits w' =
           (if limit_given request
            then (dispatch_limits w)(requested_key request \<mapsto> requested_row request)
            else dispatch_limits w) \<and>
         list_ex is_AddLimits (writes_since (length (journal w)) w') = limit_given request"
proof -
  let ?limits = "spread_limits (params_name request) (request_limits request)"
  obtain sc where s: "upload_store env request w sc ?limits = (Inr (ApiResponse ''Success'' 201), w')"
    using upload_success_store[OF assms] by blast
  have c: "lookup ?limits ''cpuMs'' = limit_field (request_limits request) ''cpuMs''"
    and m: "lookup ?limits ''memory'' = limit_field (request_limits request) ''memory''"
    by (simp_all add: lookup_spread_limits)
  from upload_store_success[OF s] show ?thesis
    unfolding c m by (simp add: limit_given_def requested_key_def requested_row_def)
qed

theorem upload_persists_truthy_limits_witness:
  "dispatch_limits (snd (upload healthy
      (put_a alice (Some (upload_body ''new'' (JObj [(''limits'', JObj [(''cpuMs'', JNum 50)])]))))
      fresh))
     = [JStr ''a'' \<mapsto> \<lparr>row_cpuMs = JNum 50, row_memory = JUndefined\<rparr>] \<and>
   dispatch_limits (snd (upload healthy (put_a alice (Some (upload_body ''new'' (JObj [])))) fresh))
     = Map.empty"
proof -
  let ?r50 = "put_a alice (Some (upload_body ''new'' (JObj [(''limits'', JObj [(''cpuMs'', JNum 50)])])))"
  let ?r0 = "put_a alice (Some (upload_body ''new'' (JObj [])))"
  have "fst (upload healthy ?r50 fresh) = Inr (ApiResponse ''Success'' 201)"
    by (simp add: handler_defs example_defs)
  then have s50: "upload healthy ?r50 fresh
                    = (Inr (ApiResponse ''Success'' 201), snd (upload healthy ?r50 fresh))"
    by (simp add: prod_eq_iff)
  have "fst (upload healthy ?r0 fresh) = Inr (ApiResponse ''Success'' 201)"
    by (simp add: handler_defs example_defs)
  then have s0: "upload healthy ?r0 fresh
                   = (Inr (ApiResponse ''Success'' 201), snd (upload healthy ?r0 fresh))"
    by (simp add: prod_eq_iff)
  have g50: "limit_given ?r50 \<and> requested_key ?r50 = JStr ''a'' \<and>
             requested_row ?r50 = \<lparr>row_cpuMs = JNum 50, row_memory = JUndefined\<rparr>"
    by (simp add: limit_given_def requested_key_def requested_row_def limit_field_def
          request_limits_def lookup_def spread_limits_def example_defs)
  have g0: "\<not> limit_given ?r0"
    by (simp add: limit_given_def limit_field_def request_limits_def lookup_def example_defs)
  from upload_persists_truthy_limits[OF s50] g50
  have "dispatch_limits (snd (upload healthy ?r50 fresh))
          = (dispatch_limits fresh)(JStr ''a'' \<mapsto> \<lparr>row_cpuMs = JNum 50, row_memory = JUndefined\<rparr>)"
    by simp
  moreover from upload_persists_truthy_limits[OF s0] g0
  have "dispatch_limits (snd (upload healthy ?r0 fresh)) = dispatch_limits fresh"
    by simp
  ultimately show ?thesis by (simp add: fresh_def)
qed

section \<open>Dispatch: every failure becomes a response\<close>

text \<open>
  Claim C7. The dispatch handler always returns a response and never lets a fault
  through. Whatever fails while the rows are read and the handle is taken, a throw of
  \<^verbatim>\<open>fetch\<close>, and a rejection of the promise that \<^verbatim>\<open>fetch\<close> returns are each
  answered with \<^verbatim>\<open>handleDispatchError\<close> applied to the failure; a name with no
  script in the namespace is one such rejection.
\<close>

theorem dispatch_error_responses:
  "(\<exists>r. dispatch env request w = Inr r) \<and>
   (\<forall>e. dispatch_handle env request w = Inl e \<longrightarrow>
        dispatch env request w = Inr (handleDispatchError env e)) \<and>
   (\<forall>wk e. dispatch_handle env request w = Inr wk \<and> worker_fetch env w wk request = Inl e \<longrightarrow>
        dispatch env request w = Inr (handleDispatchError env e)) \<and>
   (\<forall>wk e. dispatch_handle env request w = Inr wk \<and>
        worker_fetch env w wk request = Inr (Rejected e) \<longrightarrow>
        dispatch env request w = Inr (handleDispatchError env e)) \<and>
   (\<forall>wk. dispatch_handle env request w = Inr wk \<and> ns_scripts w (params_name request) = None \<longrightarrow>
        dispatch env request w = Inr (handleDispatchError env WorkerNotFound))"
proof (intro conjI allI impI)
  show "\<exists>r. dispatch env request w = Inr r"
    by (auto simp: dispatch_def dispatch_try_def promise_catch_def settle_def
             split: sum.splits promise.splits)
next
  fix e assume "dispatch_handle env request w = Inl e"
  then show "dispatch env request w = Inr (handleDispatchError env e)"
    by (simp add: dispatch_def dispatch_try_def)
next
  fix wk e
  assume "dispatch_handle env request w = Inr wk \<and> worker_fetch env w wk request = Inl e"
  then show "dispatch env request w = Inr (handleDispatchError env e)"
    by (simp add: dispatch_def dispatch_try_def)
next
  fix wk e
  assume "dispatch_handle env request w = Inr wk \<and>
        worker_fetch env w wk request = Inr (Rejected e)"
  then show "dispatch env request w = Inr (handleDispatchError env e)"
    by (simp add: dispatch_def dispatch_try_def promise_catch_def settle_def)
next
  fix wk
  assume a: "dispatch_handle env request w = Inr wk \<and> ns_scripts w (params_name request) = None"
  then have "worker_name wk = params_name request"
    by (auto simp: dispatch_handle_def dispatcher_get_def Let_def split: sum.splits option.splits)
  with a show "dispatch env request w = Inr (handleDispatchError env WorkerNotFound)"
    by (simp add: dispatch_def dispatch_try_def worker_fetch_def promise_catch_def settle_def)
qed

theorem dispatch_error_responses_witness:
  "dispatch healthy (put_a alice None) fresh = Inr (ApiResponse ''Could not dispatch'' 500) \<and>
   dispatch (healthy\<lparr>fault_GetDispatchLimitFromScript := Some (Fault ''unavailable'')\<rparr>)
      (put_a alice None) claimed = Inr (ApiResponse ''Could not dispatch'' 500) \<and>
   dispatch (healthy\<lparr>run_script := \<lambda>c a l r. Inl TypeError\<rparr>)
      (put_a alice None) claimed = Inr (ApiResponse ''Could not dispatch'' 500) \<and>
   dispatch (healthy\<lparr>run_script := \<lambda>c a l r. Inr (Rejected (Fault ''crashed''))\<rparr>)
      (put_a alice None) claimed = Inr (ApiResponse ''Could not dispatch'' 500)"
proof -
  let ?rq = "put_a alice None"
  let ?wk = "\<lparr>worker_name = ''a'', worker_args = [], worker_limits = None\<rparr>"
  let ?down = "healthy\<lparr>fault_GetDispatchLimitFromScript := Some (Fault ''unavailable'')\<rparr>"
  let ?throws = "healthy\<lparr>run_script := \<lambda>c a l r. Inl TypeError\<rparr>"
  let ?rejects = "healthy\<lparr>run_script := \<lambda>c a l r. Inr (Rejected (Fault ''crashed''))\<rparr>"
  have 1: "dispatch_handle healthy ?rq fresh = Inr ?wk \<and> ns_scripts fresh (params_name ?rq) = None"
    by (simp add: dispatch_defs example_defs)
  have 2: "dispatch_handle ?down ?rq claimed = Inl (Fault ''unavailable'')"
    by (simp add: dispatch_defs example_defs)
  have 3: "dispatch_handle ?throws ?rq claimed = Inr ?wk \<and>
           worker_fetch ?throws claimed ?wk ?rq = Inl TypeError"
    by (simp add: dispatch_defs example_defs)
  have 4: "dispatch_handle ?rejects ?rq claimed = Inr ?wk \<and>
           worker_fetch ?rejects claimed ?wk ?rq = Inr (Rejected (Fault ''crashed''))"
    by (simp add: dispatch_defs example_defs)
  from dispatch_error_responses[of healthy ?rq fresh] 1
  have "dispatch healthy ?rq fresh = Inr (handleDispatchError healthy WorkerNotFound)"
    by blast
  moreover from dispatch_error_responses[of ?down ?rq claimed] 2
  have "dispatch ?down ?rq claimed = Inr (handleDispatchError ?down (Fault ''unavailable''))"
    by blast
  moreover from dispatch_error_responses[of ?throws ?rq claimed] 3
  have "dispatch ?throws ?rq claimed = Inr (handleDispatchError ?throws TypeError)"
    by blast
  moreover from dispatch_error_responses[of ?rejects ?rq claimed] 4
  have "dispatch ?rejects ?rq claimed = Inr (handleDispatchError ?rejects (Fault ''crashed''))"
    by blast
  ultimately show ?thesis by (simp add: healthy_def)
qed

section \<open>Dispatch: the outbound worker row\<close>

text \<open>
  Claim C10. The answer of the dispatch handler does not depend on the contents of the
  \<^verbatim>\<open>outbound_workers\<close> table: two dispatches that differ in that table only give
  the same result. The row is read and dropped, and the worker arguments of the handle
  are always the empty object.
\<close>

theorem dispatch_ignores_outbound_row:
  "dispatch env request (w\<lparr>outbound_workers := t\<rparr>) = dispatch env request w \<and>
   (\<forall>wk. dispatch_handle env request w = Inr wk \<longrightarrow> worker_args wk = [])"
proof
  show "dispatch env request (w\<lparr>outbound_workers := t\<rparr>) = dispatch env request w"
    by (simp add: dispatch_def dispatch_try_def dispatch_handle_outbound worker_fetch_outbound
          cong: sum.case_cong)
  show "\<forall>wk. dispatch_handle env request w = Inr wk \<longrightarrow> worker_args wk = []"
    by (auto simp: dispatch_handle_def dispatcher_get_def Let_def split: sum.splits option.splits)
qed

theorem dispatch_ignores_outbound_row_witness:
  "dispatch healthy (put_a alice None) (claimed\<lparr>outbound_workers := [''a'' \<mapsto> ''proxy'']\<rparr>)
     = dispatch healthy (put_a alice None) claimed \<and>
   dispatch healthy (put_a alice None) claimed = Inr (ScriptResponse 200 ''hello'') \<and>
   (\<exists>wk. dispatch_handle healthy (put_a alice None) claimed = Inr wk \<and> worker_args wk = [])"
proof -
  let ?rq = "put_a alice None"
  obtain wk where h: "dispatch_handle healthy ?rq claimed = Inr wk"
    by (simp add: dispatch_defs example_defs)
  have r: "dispatch healthy ?rq claimed = Inr (ScriptResponse 200 ''hello'')"
    by (simp add: dispatch_defs example_defs)
  from dispatch_ignores_outbound_row[of healthy ?rq "[''a'' \<mapsto> ''proxy'']" claimed] h r
  show ?thesis by simp
qed

section \<open>Listing the scripts of a customer\<close>

text \<open>
  Claim C8. When the namespace answers the query, the list handler returns, with status
  200, the names tagged with the customer's id: each such name once and no other name.
  It writes nothing (the state, journal included, is what it was), and for a customer who
  owns no script the answer is the empty array, a response and not an error.
\<close>

theorem list_scripts_owned:
  assumes "fault_GetScriptsByTags env = None"
  shows "\<exists>names. list_scripts env request w = (Inr (JsonResponse (JArr (map JStr names)) None), w) \<and>
           status (JsonResponse (JArr (map JStr names)) None) = 200 \<and>
           distinct names \<and>
           set names = {n. customer_id (customer request) \<in> set (tags_of w n)} \<and>
           ((\<forall>n. customer_id (customer request) \<notin> set (tags_of w n)) \<longrightarrow> names = [])"
proof -
  let ?c = "customer_id (customer request)"
  let ?names = "remdups (filter (\<lambda>n. ?c \<in> set (tags_of w n)) (map fst (tag_index w)))"
  have 1: "list_scripts env request w = (Inr (JsonResponse (JArr (map JStr ?names)) None), w)"
    using assms by (simp add: list_scripts_def GetScriptsByTags_def array_includes_def)
  have 2: "set ?names = {n. ?c \<in> set (tags_of w n)}"
    using tags_of_in_index[of ?c w] by auto
  have 3: "(\<forall>n. ?c \<notin> set (tags_of w n)) \<longrightarrow> ?names = []"
    by (simp add: filter_empty_conv)
  from 1 2 3 show ?thesis
    by (intro exI[of _ ?names]) simp
qed

theorem list_scripts_owned_witness:
  "list_scripts healthy (put_a alice None) claimed
     = (Inr (JsonResponse (JArr [JStr ''a'']) None), claimed) \<and>
   {n. ''alice'' \<in> set (tags_of claimed n)} = {''a''} \<and>
   list_scripts healthy (put_a bob None) claimed = (Inr (JsonResponse (JArr []) None), claimed)"
proof -
  have up: "fault_GetScriptsByTags healthy = None"
    by (simp add: healthy_def)
  have a: "list_scripts healthy (put_a alice None) claimed
             = (Inr (JsonResponse (JArr [JStr ''a'']) None), claimed)"
    by (simp add: list_scripts_def GetScriptsByTags_def array_includes_def tags_of_def example_defs)
  have none: "\<forall>n. customer_id (customer (put_a bob None)) \<notin> set (tags_of claimed n)"
    by (simp add: tags_of_def example_defs)
  from list_scripts_owned[OF up, of "put_a alice None" claimed]
  obtain names where n: "list_scripts healthy (put_a alice None) claimed
        = (Inr (JsonResponse (JArr (map JStr names)) None), claimed)"
      and s: "set names = {n. customer_id (customer (put_a alice None)) \<in> set (tags_of claimed n)}"
    by blast
  from n a have "map JStr names = [JStr ''a'']" by simp
  then have "names = [''a'']" by (auto simp: map_eq_Cons_conv)
  with s have owned: "{n. ''alice'' \<in> set (tags_of claimed n)} = {''a''}"
    by (simp add: put_a_def alice_def)
  from list_scripts_owned[OF up, of "put_a bob None" claimed] none
  have "list_scripts healthy (put_a bob None) claimed = (Inr (JsonResponse (JArr []) None), claimed)"
    by auto
  with a owned show ?thesis by simp
qed

end
